theory Spec2Isabelle
  imports Main
begin

section \<open>Values, exceptions and observable effects\<close>

text \<open>
  The program (src/main.py) loads a data file and a schema file (JSON or YAML), runs
  \<^verbatim>\<open>jsonschema.validate\<close> on them and maps the outcome to a printed line and an exit code.
  A parsed document is a generic tree, as \<^verbatim>\<open>json.load\<close> and \<^verbatim>\<open>yaml.safe_load\<close> return it.
\<close>

datatype doc =
    JNull
  | JBool bool
  | JNum int
  | JStr string
  | JArr "doc list"
  | JObj "(string \<times> doc) list"

text \<open>
  The exception classes the program names or can meet, with Python's class hierarchy:
  \<^verbatim>\<open>FileNotFoundError\<close> and \<^verbatim>\<open>PermissionError\<close> derive from \<^verbatim>\<open>OSError\<close>;
  \<^verbatim>\<open>json.JSONDecodeError\<close> and \<^verbatim>\<open>UnicodeDecodeError\<close> derive from \<^verbatim>\<open>ValueError\<close>;
  \<^verbatim>\<open>yaml.YAMLError\<close>, \<^verbatim>\<open>jsonschema.ValidationError\<close>, \<^verbatim>\<open>jsonschema.SchemaError\<close>
  and \<^verbatim>\<open>TypeError\<close> derive from \<^verbatim>\<open>Exception\<close> directly. \<open>RuntimeError\<close> stands for any other
  class below \<^verbatim>\<open>Exception\<close>. An exception value is its class and the text \<^verbatim>\<open>str(e)\<close>.
\<close>

datatype exn_class =
    FileNotFoundError
  | PermissionError
  | OSError
  | JSONDecodeError
  | UnicodeDecodeError
  | ValueError
  | YAMLError
  | ValidationError
  | SchemaError
  | TypeError
  | RuntimeError

datatype py_exception = Exn exn_class string

fun class_of :: "py_exception \<Rightarrow> exn_class" where
  "class_of (Exn c m) = c"

fun str_of :: "py_exception \<Rightarrow> string" where
  "str_of (Exn c m) = m"

definition is_subclass :: "exn_class \<Rightarrow> exn_class \<Rightarrow> bool" where
  "is_subclass c d =
     (c = d
      \<or> (d = OSError \<and> (c = FileNotFoundError \<or> c = PermissionError))
      \<or> (d = ValueError \<and> (c = JSONDecodeError \<or> c = UnicodeDecodeError)))"

text \<open>\<^verbatim>\<open>except C as e\<close> catches \<open>e\<close> when its class is \<open>C\<close> or derives from it.\<close>

definition isinstance :: "py_exception \<Rightarrow> exn_class \<Rightarrow> bool" where
  "isinstance e d = is_subclass (class_of e) d"

datatype level = DEBUG | INFO | WARNING | ERROR | CRITICAL

text \<open>
  What a run does besides returning, in the order it happens: the level set on the root
  logger, every call of \<^verbatim>\<open>open\<close> (\<open>Opened\<close> when it gives a file, \<open>OpenFailed\<close> when it
  raises), the file closed on leaving the \<^verbatim>\<open>with\<close> block, every call of the logging
  module with its level, and every line printed to stdout.
\<close>

datatype event =
    SetLevel string
  | Opened string
  | OpenFailed string
  | Closed string
  | Logged level string
  | Printed string

text \<open>
  The environment of a run: the file system (\<^verbatim>\<open>os.path.exists\<close>, \<^verbatim>\<open>open\<close>), the two
  parsers and the schema validation engine. \<open>open_r\<close> gives the text of the file or the
  exception \<^verbatim>\<open>open\<close> raises; a parser gives the document or the exception it raises;
  the engine gives \<open>None\<close> when it returns normally and the exception otherwise.
\<close>

record world =
  path_exists :: "string \<Rightarrow> bool"
  open_r :: "string \<Rightarrow> py_exception + string"
  json_load :: "string \<Rightarrow> py_exception + doc"
  yaml_safe_load :: "string \<Rightarrow> py_exception + doc"
  jsonschema_validate :: "doc \<Rightarrow> doc \<Rightarrow> py_exception option"

section \<open>String helpers of Python\<close>

text \<open>
  \<^verbatim>\<open>str.lower\<close> on code points below 256: the ASCII capitals and the Latin-1 capitals
  (U+00C0 to U+00DE without the multiplication sign U+00D7) move up by 32.
\<close>

definition py_lower_char :: "char \<Rightarrow> char" where
  "py_lower_char c =
     (let n = (of_char c :: nat)
      in if (65 \<le> n \<and> n \<le> 90) \<or> (192 \<le> n \<and> n \<le> 222 \<and> n \<noteq> 215)
         then char_of (n + 32) else c)"

definition py_lower :: "string \<Rightarrow> string" where
  "py_lower s = map py_lower_char s"

text \<open>\<^verbatim>\<open>s.split(c)\<close> for a one-character separator: never empty, one piece more than separators.\<close>

fun py_split :: "char \<Rightarrow> string \<Rightarrow> string list" where
  "py_split c [] = [[]]"
| "py_split c (x # xs) =
     (if x = c then [] # py_split c xs
      else (case py_split c xs of
              [] \<Rightarrow> [[x]]
            | h # t \<Rightarrow> (x # h) # t))"

section \<open>The loader\<close>

text \<open>Lines 43-44 of \<^verbatim>\<open>load_data\<close>: the explicit type, or the piece after the last dot, lowercased.\<close>

definition resolve_type :: "string \<Rightarrow> string option \<Rightarrow> string" where
  "resolve_type file_path file_type =
     (case file_type of
        None \<Rightarrow> py_lower (last (py_split (CHR ''.'') file_path))
      | Some t \<Rightarrow> t)"

datatype format = JSON | YAML | Unsupported

text \<open>The dispatch of lines 48-53.\<close>

definition format_of :: "string \<Rightarrow> format" where
  "format_of t =
     (if t = ''json'' then JSON
      else if t = ''yaml'' \<or> t = ''yml'' then YAML
      else Unsupported)"

text \<open>The body of the \<^verbatim>\<open>with open(...)\<close> block, lines 48-53, on the opened file's text.\<close>

definition parse_as :: "world \<Rightarrow> string \<Rightarrow> string \<Rightarrow> py_exception + doc" where
  "parse_as w t content =
     (case format_of t of
        JSON \<Rightarrow> json_load w content
      | YAML \<Rightarrow> yaml_safe_load w content
      | Unsupported \<Rightarrow>
          Inl (Exn ValueError (''Unsupported file type: '' @ t @ ''.  Must be json or yaml/yml.'')))"

text \<open>The \<^verbatim>\<open>try\<close> block, lines 46-53: the file is closed when the \<^verbatim>\<open>with\<close> block is left.\<close>

definition try_load :: "world \<Rightarrow> string \<Rightarrow> string \<Rightarrow> event list \<times> (py_exception + doc)" where
  "try_load w file_path t =
     (case open_r w file_path of
        Inl e \<Rightarrow> ([OpenFailed file_path], Inl e)
      | Inr content \<Rightarrow> ([Opened file_path, Closed file_path], parse_as w t content))"

text \<open>The handlers of lines 54-65, in their order; each logs and re-raises the same exception.\<close>

definition load_handler :: "string \<Rightarrow> py_exception \<Rightarrow> event" where
  "load_handler file_path e =
     (if isinstance e FileNotFoundError then
        Logged ERROR (''File not found: '' @ file_path)
      else if isinstance e JSONDecodeError then
        Logged ERROR (''Error decoding JSON in '' @ file_path @ '': '' @ str_of e)
      else if isinstance e YAMLError then
        Logged ERROR (''Error decoding YAML in '' @ file_path @ '': '' @ str_of e)
      else
        Logged ERROR (''Error loading data from '' @ file_path @ '': '' @ str_of e))"

definition load_data :: "world \<Rightarrow> string \<Rightarrow> string option \<Rightarrow> event list \<times> (py_exception + doc)" where
  "load_data w file_path file_type =
     (if \<not> path_exists w file_path then
        ([], Inl (Exn FileNotFoundError (''File not found: '' @ file_path)))
      else
        (case try_load w file_path (resolve_type file_path file_type) of
           (evs, Inr d) \<Rightarrow> (evs, Inr d)
         | (evs, Inl e) \<Rightarrow> (evs @ [load_handler file_path e], Inl e)))"

section \<open>The validator\<close>

definition validate_data :: "world \<Rightarrow> doc \<Rightarrow> doc \<Rightarrow> event list \<times> py_exception option" where
  "validate_data w data schema =
     (case jsonschema_validate w data schema of
        None \<Rightarrow> ([Logged INFO ''Data validation successful.''], None)
      | Some e \<Rightarrow>
          (if isinstance e ValidationError then
             ([Logged ERROR (''Data validation failed: '' @ str_of e)], Some e)
           else if isinstance e SchemaError then
             ([Logged ERROR (''Schema validation failed: '' @ str_of e)], Some e)
           else
             ([Logged ERROR (''An unexpected error occurred during validation: '' @ str_of e)],
              Some e)))"

section \<open>The argument parser\<close>

text \<open>
  \<^verbatim>\<open>setup_argparse\<close> declares two required positionals and three options with a value,
  each with its choices; argparse adds \<^verbatim>\<open>-h\<close>/\<^verbatim>\<open>--help\<close>. \<^verbatim>\<open>parse_args\<close> is library code:
  the model below follows the argparse module of Python 3.11 for this parser, in its two
  passes. The first pass classifies every token before the first \<^verbatim>\<open>--\<close> as an argument or an
  option (an ambiguous abbreviation ends the process at once); every token after the first
  \<^verbatim>\<open>--\<close> is an argument. The second pass takes the tokens from left to right: arguments fill
  the positionals, options take their value and check it against their choices, help ends
  the process with status 0, and every usage error ends it with status 2.
\<close>

record args =
  data_file :: string
  schema_file :: string
  data_type :: "string option"
  schema_type :: "string option"
  log_level :: string

text \<open>
  The value argparse gives a positional is the token, except for a token \<^verbatim>\<open>--\<close> standing
  alone for it: argparse strips it and leaves the empty list.
\<close>

datatype path_value = Str string | EmptyList

text \<open>
  The outcome of \<^verbatim>\<open>parse_args\<close>: the namespace, or the status with which argparse ends the
  process. \<open>ParsedList\<close> is a namespace in which a path is the empty list (its components
  are the two paths, the two types and the log level).
\<close>

datatype parse_result =
    Parsed args
  | ParsedList path_value path_value "string option" "string option" string
  | SystemExit int

datatype dest = Help | DataType | SchemaType | LogLevel

text \<open>
  The class of a token: an argument; an option, with the value after \<^verbatim>\<open>=\<close> if any;
  \<^verbatim>\<open>-h\<close> with more characters glued to it (after \<^verbatim>\<open>=\<close> when the flag is set); an ambiguous
  abbreviation; an option this parser does not have.
\<close>

datatype token =
    Positional
  | Flag dest "string option"
  | ShortHelp bool string
  | Ambiguous
  | Unknown

definition long_options :: "(string \<times> dest) list" where
  "long_options =
     [(''--help'', Help), (''--data_type'', DataType),
      (''--schema_type'', SchemaType), (''--log_level'', LogLevel)]"

definition choices :: "dest \<Rightarrow> string list" where
  "choices d =
     (case d of
        Help \<Rightarrow> []
      | DataType \<Rightarrow> [''json'', ''yaml'']
      | SchemaType \<Rightarrow> [''json'', ''yaml'']
      | LogLevel \<Rightarrow> [''DEBUG'', ''INFO'', ''WARNING'', ''ERROR'', ''CRITICAL''])"

definition startswith :: "string \<Rightarrow> string \<Rightarrow> bool" where
  "startswith s p = (take (length p) s = p)"

text \<open>The part of a token before the first \<^verbatim>\<open>=\<close>, and the part after it when there is one.\<close>

fun split_eq :: "string \<Rightarrow> string \<times> string option" where
  "split_eq [] = ([], None)"
| "split_eq (x # xs) =
     (if x = CHR ''='' then ([], Some xs)
      else (case split_eq xs of (n, v) \<Rightarrow> (x # n, v)))"

definition is_digit :: "char \<Rightarrow> bool" where
  "is_digit c = (48 \<le> (of_char c :: nat) \<and> (of_char c :: nat) \<le> 57)"

text \<open>
  argparse's test for a negative number, the regular expression \<^verbatim>\<open>^-\d+$|^-\d*\.\d+$\<close>:
  \<^verbatim>\<open>-\<close> and digits, or \<^verbatim>\<open>-\<close>, digits, a dot and digits; \<^verbatim>\<open>$\<close> also matches before a
  newline that ends the token.
\<close>

definition looks_negative :: "string \<Rightarrow> bool" where
  "looks_negative a =
     (case a of
        [] \<Rightarrow> False
      | x # r \<Rightarrow>
          x = CHR ''-'' \<and>
          (case py_split (CHR ''.'') (if r \<noteq> [] \<and> last r = CHR 0x0A then butlast r else r) of
             [ds] \<Rightarrow> ds \<noteq> [] \<and> list_all is_digit ds
           | [ds, fs] \<Rightarrow> list_all is_digit ds \<and> fs \<noteq> [] \<and> list_all is_digit fs
           | _ \<Rightarrow> False))"

text \<open>The option a token spells out in full.\<close>

definition exact_option :: "string \<Rightarrow> dest option" where
  "exact_option a = (if a = ''-h'' then Some Help else map_of long_options a)"

text \<open>A token that starts with \<^verbatim>\<open>-\<close> and fits no option.\<close>

definition other_token :: "string \<Rightarrow> token" where
  "other_token a = (if looks_negative a \<or> CHR '' '' \<in> set a then Positional else Unknown)"

text \<open>
  \<^verbatim>\<open>_get_option_tuples\<close> and the choice among its results: a token with two dashes fits
  every long option that starts with its part before \<^verbatim>\<open>=\<close>; a token with one dash fits
  \<^verbatim>\<open>-h\<close> when it starts with it.
\<close>

definition abbreviated :: "string \<Rightarrow> token" where
  "abbreviated a =
     (if startswith a ''--'' then
        (case split_eq a of
           (name, explicit) \<Rightarrow>
             (case filter (\<lambda>(n, d). startswith n name) long_options of
                [] \<Rightarrow> other_token a
              | [(n, d)] \<Rightarrow> Flag d explicit
              | _ \<Rightarrow> Ambiguous))
      else if take 2 a = ''-h'' then ShortHelp False (drop 2 a)
      else other_token a)"

text \<open>\<^verbatim>\<open>_parse_optional\<close>, its tests in their order.\<close>

definition parse_optional :: "string \<Rightarrow> token" where
  "parse_optional a =
     (if a = [] then Positional
      else if hd a \<noteq> CHR ''-'' then Positional
      else
        (case exact_option a of
           Some d \<Rightarrow> Flag d None
         | None \<Rightarrow>
             (if length a = 1 then Positional
              else
                (case split_eq a of
                   (name, None) \<Rightarrow> abbreviated a
                 | (name, Some v) \<Rightarrow>
                     (case exact_option name of
                        None \<Rightarrow> abbreviated a
                      | Some d \<Rightarrow> (if name = ''-h'' then ShortHelp True v else Flag d (Some v)))))))"

text \<open>
  The status for \<^verbatim>\<open>-h\<close> with the characters \<open>e\<close> glued to it, in \<^verbatim>\<open>consume_optional\<close>: a
  dash is an error; a character that is no flag is set aside and help runs; a further
  \<^verbatim>\<open>h\<close> is help again, and an \<^verbatim>\<open>=\<close> after it is an error.
\<close>

fun short_help :: "string \<Rightarrow> int" where
  "short_help [] = 2"
| "short_help (c # r) =
     (if c = CHR ''-'' then 2
      else if c \<noteq> CHR ''h'' then 0
      else (case r of
              [] \<Rightarrow> 0
            | d # r' \<Rightarrow> (if d = CHR ''='' then 2 else short_help r)))"

text \<open>
  The state of the second pass: the values of the positionals filled so far, the values
  stored by the options, whether a token was left unrecognised, and whether the token just
  before was an argument that filled a positional.
\<close>

record pstate =
  positionals :: "path_value list"
  p_data_type :: "string option"
  p_schema_type :: "string option"
  p_log_level :: string
  extras :: bool
  last_assigned :: bool

definition store :: "dest \<Rightarrow> string \<Rightarrow> pstate \<Rightarrow> pstate" where
  "store d v s =
     (case d of
        Help \<Rightarrow> s\<lparr>last_assigned := False\<rparr>
      | DataType \<Rightarrow> s\<lparr>p_data_type := Some v, last_assigned := False\<rparr>
      | SchemaType \<Rightarrow> s\<lparr>p_schema_type := Some v, last_assigned := False\<rparr>
      | LogLevel \<Rightarrow> s\<lparr>p_log_level := v, last_assigned := False\<rparr>)"

text \<open>An argument fills the next positional; with both filled it is left unrecognised.\<close>

definition assign :: "path_value \<Rightarrow> pstate \<Rightarrow> pstate" where
  "assign v s =
     (if length (positionals s) < 2
      then s\<lparr>positionals := positionals s @ [v], last_assigned := True\<rparr>
      else s\<lparr>extras := True, last_assigned := False\<rparr>)"

text \<open>
  The tokens before the first \<^verbatim>\<open>--\<close>, from left to right: the status with which the
  process ends, or the state reached. An option without \<^verbatim>\<open>=\<close> takes the next token as its
  value, which must be an argument.
\<close>

fun consume :: "pstate \<Rightarrow> string list \<Rightarrow> int + pstate" where
  "consume s [] = Inr s"
| "consume s (a # rest) =
     (case parse_optional a of
        Positional \<Rightarrow> consume (assign (Str a) s) rest
      | Unknown \<Rightarrow> consume (s\<lparr>extras := True, last_assigned := False\<rparr>) rest
      | Ambiguous \<Rightarrow> Inl 2
      | ShortHelp sep e \<Rightarrow> Inl (if sep then 2 else short_help e)
      | Flag d explicit \<Rightarrow>
          (if d = Help then Inl (if explicit = None then 0 else 2)
           else
             (case explicit of
                Some v \<Rightarrow> (if v \<in> set (choices d) then consume (store d v s) rest else Inl 2)
              | None \<Rightarrow>
                  (case rest of
                     [] \<Rightarrow> Inl 2
                   | v # rest' \<Rightarrow>
                       (if parse_optional v = Positional \<and> v \<in> set (choices d)
                        then consume (store d v s) rest'
                        else Inl 2)))))"

text \<open>
  At the end both positionals are required and nothing may be left unrecognised.
\<close>

definition finish :: "pstate \<Rightarrow> parse_result" where
  "finish s =
     (case positionals s of
        [d, sc] \<Rightarrow>
          (if extras s then SystemExit 2
           else
             (case (d, sc) of
                (Str p, Str q) \<Rightarrow>
                  Parsed \<lparr>data_file = p, schema_file = q, data_type = p_data_type s,
                          schema_type = p_schema_type s, log_level = p_log_level s\<rparr>
              | _ \<Rightarrow> ParsedList d sc (p_data_type s) (p_schema_type s) (p_log_level s)))
      | _ \<Rightarrow> SystemExit 2)"

text \<open>
  The tokens after the first \<^verbatim>\<open>--\<close> are arguments. One that fills a positional alone
  gives its text, or the empty list when it is \<^verbatim>\<open>--\<close> itself.
\<close>

fun assign_rest :: "pstate \<Rightarrow> string list \<Rightarrow> pstate" where
  "assign_rest s [] = s"
| "assign_rest s (y # ys) =
     assign_rest (assign (if y = ''--'' then EmptyList else Str y) s) ys"

text \<open>
  The first \<^verbatim>\<open>--\<close> is taken together with a positional: with the one filled just before
  it, or else with the one the token after it fills (which then keeps its text even when
  it is \<^verbatim>\<open>--\<close>). When neither is there, it is left unrecognised, and nothing after it fills
  a positional.
\<close>

definition after_separator :: "pstate \<Rightarrow> string list \<Rightarrow> parse_result" where
  "after_separator s post =
     (if last_assigned s then finish (assign_rest s post)
      else if length (positionals s) < 2 then
        (case post of
           [] \<Rightarrow> SystemExit 2
         | x # ys \<Rightarrow> finish (assign_rest (assign (Str x) s) ys))
      else SystemExit 2)"

definition parse_args :: "string list \<Rightarrow> parse_result" where
  "parse_args argv =
     (if list_ex (\<lambda>a. parse_optional a = Ambiguous) (takeWhile (\<lambda>a. a \<noteq> ''--'') argv)
      then SystemExit 2
      else
        (case consume \<lparr>positionals = [], p_data_type = None, p_schema_type = None,
                       p_log_level = ''INFO'', extras = False, last_assigned = False\<rparr>
                (takeWhile (\<lambda>a. a \<noteq> ''--'') argv) of
           Inl c \<Rightarrow> SystemExit c
         | Inr s \<Rightarrow>
             (case dropWhile (\<lambda>a. a \<noteq> ''--'') argv of
                [] \<Rightarrow> finish s
              | sep # post \<Rightarrow> after_separator s post)))"

section \<open>The entry point\<close>

text \<open>The handlers of lines 108-122, in their order: the printed line; each then exits with 1.\<close>

definition report :: "py_exception \<Rightarrow> string" where
  "report e =
     (if isinstance e FileNotFoundError then ''Error: '' @ str_of e
      else if isinstance e ValueError then ''Error: '' @ str_of e
      else if isinstance e ValidationError then ''Validation Error: '' @ str_of e
      else if isinstance e SchemaError then ''Schema Error: '' @ str_of e
      else ''An unexpected error occurred: '' @ str_of e)"

text \<open>
  Lines 99-122: the events of the run and the exit status of the process. Leaving the
  \<^verbatim>\<open>try\<close> block normally, \<^verbatim>\<open>main\<close> returns and the status is 0.
\<close>

definition run :: "world \<Rightarrow> args \<Rightarrow> event list \<times> int" where
  "run w a =
     (case load_data w (data_file a) (data_type a) of
        (ev1, Inl e) \<Rightarrow> (SetLevel (log_level a) # ev1 @ [Printed (report e)], 1)
      | (ev1, Inr data) \<Rightarrow>
          (case load_data w (schema_file a) (schema_type a) of
             (ev2, Inl e) \<Rightarrow> (SetLevel (log_level a) # ev1 @ ev2 @ [Printed (report e)], 1)
           | (ev2, Inr schema) \<Rightarrow>
               (case validate_data w data schema of
                  (ev3, Some e) \<Rightarrow>
                    (SetLevel (log_level a) # ev1 @ ev2 @ ev3 @ [Printed (report e)], 1)
                | (ev3, None) \<Rightarrow>
                    (SetLevel (log_level a) # ev1 @ ev2 @ ev3 @ [Printed ''Validation successful!''],
                     0))))"

text \<open>
  The same lines when a path of the namespace is the empty list: \<^verbatim>\<open>os.path.exists\<close> in
  line 40 raises \<^verbatim>\<open>TypeError\<close> on it, before anything else of \<^verbatim>\<open>load_data\<close>.
\<close>

definition list_path_error :: py_exception where
  "list_path_error =
     Exn TypeError ''stat: path should be string, bytes, os.PathLike or integer, not list''"

definition load_value ::
  "world \<Rightarrow> path_value \<Rightarrow> string option \<Rightarrow> event list \<times> (py_exception + doc)" where
  "load_value w v t =
     (case v of
        Str p \<Rightarrow> load_data w p t
      | EmptyList \<Rightarrow> ([], Inl list_path_error))"

definition run_list ::
  "world \<Rightarrow> path_value \<Rightarrow> path_value \<Rightarrow> string option \<Rightarrow> string option \<Rightarrow> string
     \<Rightarrow> event list \<times> int" where
  "run_list w d sc dt st ll =
     (case load_value w d dt of
        (ev1, Inl e) \<Rightarrow> (SetLevel ll # ev1 @ [Printed (report e)], 1)
      | (ev1, Inr data) \<Rightarrow>
          (case load_value w sc st of
             (ev2, Inl e) \<Rightarrow> (SetLevel ll # ev1 @ ev2 @ [Printed (report e)], 1)
           | (ev2, Inr schema) \<Rightarrow>
               (case validate_data w data schema of
                  (ev3, Some e) \<Rightarrow> (SetLevel ll # ev1 @ ev2 @ ev3 @ [Printed (report e)], 1)
                | (ev3, None) \<Rightarrow>
                    (SetLevel ll # ev1 @ ev2 @ ev3 @ [Printed ''Validation successful!''], 0))))"

text \<open>
  Lines 96-97 come before the \<^verbatim>\<open>try\<close> block: when \<^verbatim>\<open>parse_args\<close> ends the process, nothing
  of the run happens (what argparse writes itself, usage or help, is left out of the events).
\<close>

definition main :: "world \<Rightarrow> string list \<Rightarrow> event list \<times> int" where
  "main w argv =
     (case parse_args argv of
        SystemExit c \<Rightarrow> ([], c)
      | Parsed a \<Rightarrow> run w a
      | ParsedList d sc dt st ll \<Rightarrow> run_list w d sc dt st ll)"

section \<open>Notions the properties speak about\<close>




text \<open>The file name of a path: what follows its last slash.\<close>

definition basename :: "string \<Rightarrow> string" where
  "basename p = last (py_split (CHR ''/'') p)"









section \<open>A concrete environment\<close>

text \<open>
  The files of the example usage at the end of src/main.py, and a few more: a data file
  with a string for the age, a file named \<^verbatim>\<open>data.YML\<close>, files that do not parse, a schema
  whose type is no type, a file that exists and cannot be read, files without extension,
  a data file that holds the number 5 with a schema asking for a string, and a name with no
  file behind it. The parsers and the engine answer on the texts and
  documents of these files as the libraries do; the texts of the exceptions are the
  libraries' messages (first line only, except for the two violations).
\<close>

definition apostrophe :: string where
  "apostrophe = [CHR 0x27]"

definition newline :: string where
  "newline = [CHR 0x0A]"

definition data_text :: string where
  \<open>data_text = ''{"name": "John Doe", "age": 30}''\<close>

definition data_yaml_text :: string where
  "data_yaml_text = ''name: John Doe'' @ newline @ ''age: 30''"

definition bad_age_text :: string where
  \<open>bad_age_text = ''{"name": "John Doe", "age": "30"}''\<close>

definition schema_text :: string where
  \<open>schema_text = ''{"type": "object", "properties": {"name": {"type": "string"}, "age": {"type": "integer"}}, "required": ["name", "age"]}''\<close>

definition bad_schema_text :: string where
  \<open>bad_schema_text = ''{"type": "not-a-type"}''\<close>

definition broken_json_text :: string where
  \<open>broken_json_text = ''{"name": }''\<close>

definition broken_yaml_text :: string where
  "broken_yaml_text = ''name: [John''"

definition data_doc :: doc where
  "data_doc = JObj [(''name'', JStr ''John Doe''), (''age'', JNum 30)]"

definition bad_age_doc :: doc where
  "bad_age_doc = JObj [(''name'', JStr ''John Doe''), (''age'', JStr ''30'')]"

definition schema_doc :: doc where
  "schema_doc =
     JObj [(''type'', JStr ''object''),
           (''properties'',
              JObj [(''name'', JObj [(''type'', JStr ''string'')]),
                    (''age'', JObj [(''type'', JStr ''integer'')])]),
           (''required'', JArr [JStr ''name'', JStr ''age''])]"

definition bad_schema_doc :: doc where
  "bad_schema_doc = JObj [(''type'', JStr ''not-a-type'')]"

definition age_violation :: string where
  "age_violation =
     apostrophe @ ''30'' @ apostrophe @ '' is not of type 'integer'' @ apostrophe
     @ newline @ newline
     @ ''Failed validating 'type' in schema['properties']['age']:'' @ newline
     @ ''    {'type': 'integer'}'' @ newline @ newline
     @ ''On instance['age']:'' @ newline
     @ ''    '' @ apostrophe @ ''30'' @ apostrophe"

definition string_schema_text :: string where
  \<open>string_schema_text = ''{"type": "string"}''\<close>

definition string_schema_doc :: doc where
  "string_schema_doc = JObj [(''type'', JStr ''string'')]"

definition five_violation :: string where
  "five_violation =
     ''5 is not of type 'string'' @ apostrophe
     @ newline @ newline
     @ ''Failed validating 'type' in schema:'' @ newline
     @ ''    {'type': 'string'}'' @ newline @ newline
     @ ''On instance:'' @ newline
     @ ''    5''"

definition example_files :: "(string \<times> string) list" where
  "example_files =
     [(''data.json'', data_text), (''data.YML'', data_yaml_text),
      (''bad_age.json'', bad_age_text), (''schema.json'', schema_text),
      (''bad_schema.json'', bad_schema_text), (''broken.json'', broken_json_text),
      (''broken.yaml'', broken_yaml_text), (''JSON'', ''{}''),
      (''docs/README'', ''hello''), (''five.json'', ''5''),
      (''string_schema.json'', string_schema_text)]"

definition example_json :: "string \<Rightarrow> py_exception + doc" where
  "example_json c =
     (if c = data_text then Inr data_doc
      else if c = bad_age_text then Inr bad_age_doc
      else if c = schema_text then Inr schema_doc
      else if c = bad_schema_text then Inr bad_schema_doc
      else if c = string_schema_text then Inr string_schema_doc
      else if c = ''5'' then Inr (JNum 5)
      else if c = ''{}'' then Inr (JObj [])
      else if c = broken_json_text then
        Inl (Exn JSONDecodeError ''Expecting value: line 1 column 10 (char 9)'')
      else Inl (Exn JSONDecodeError ''Expecting value: line 1 column 1 (char 0)''))"

definition example_yaml :: "string \<Rightarrow> py_exception + doc" where
  "example_yaml c =
     (if c = data_text \<or> c = data_yaml_text then Inr data_doc
      else if c = bad_age_text then Inr bad_age_doc
      else if c = schema_text then Inr schema_doc
      else if c = bad_schema_text then Inr bad_schema_doc
      else if c = string_schema_text then Inr string_schema_doc
      else if c = ''5'' then Inr (JNum 5)
      else if c = ''{}'' then Inr (JObj [])
      else if c = broken_yaml_text then
        Inl (Exn YAMLError ''while parsing a flow sequence'')
      else if c = broken_json_text then
        Inl (Exn YAMLError ''while parsing a flow mapping'')
      else Inr (JStr c))"

definition example_validate :: "doc \<Rightarrow> doc \<Rightarrow> py_exception option" where
  "example_validate d s =
     (if s = bad_schema_doc then
        Some (Exn SchemaError
                (apostrophe @ ''not-a-type' is not valid under any of the given schemas''))
      else if s = schema_doc \<and> d = bad_age_doc then Some (Exn ValidationError age_violation)
      else if s = string_schema_doc \<and> d = JNum 5 then Some (Exn ValidationError five_violation)
      else if s = schema_doc \<and> d \<noteq> data_doc then
        Some (Exn ValidationError ''document does not fit the example schema'')
      else None)"

definition example_world :: world where
  "example_world =
     \<lparr>path_exists = (\<lambda>p. p \<in> set (''locked.json'' # map fst example_files)),
      open_r = (\<lambda>p.
        if p = ''locked.json'' then
          Inl (Exn PermissionError (''[Errno 13] Permission denied: 'locked.json'' @ apostrophe))
        else (case map_of example_files p of
                Some c \<Rightarrow> Inr c
              | None \<Rightarrow>
                  Inl (Exn FileNotFoundError
                         (''[Errno 2] No such file or directory: '' @ apostrophe @ p @ apostrophe)))),
      json_load = example_json,
      yaml_safe_load = example_yaml,
      jsonschema_validate = example_validate\<rparr>"

section \<open>Unfolding the definitions on concrete inputs\<close>

lemmas loader_defs = load_data_def try_load_def parse_as_def format_of_def resolve_type_def
  load_handler_def isinstance_def is_subclass_def py_lower_def py_lower_char_def

lemmas example_defs = example_world_def example_files_def example_json_def example_yaml_def
  example_validate_def data_text_def data_yaml_text_def bad_age_text_def schema_text_def
  bad_schema_text_def broken_json_text_def broken_yaml_text_def data_doc_def bad_age_doc_def
  schema_doc_def bad_schema_doc_def age_violation_def apostrophe_def newline_def
  string_schema_text_def string_schema_doc_def five_violation_def

section \<open>A conforming document\<close>

text \<open>
  C1. When the arguments parse, both files load to documents \<open>D\<close> and \<open>S\<close>, and the engine
  accepts \<open>D\<close> under \<open>S\<close>, the run calls \<^verbatim>\<open>logging.info\<close> with the validation-successful
  message, then prints \<^verbatim>\<open>Validation successful!\<close>, and the process ends with status 0.
  (The theorem is about the logging call; whether the record is written depends on the
  level set from \<^verbatim>\<open>--log_level\<close>.)
\<close>

theorem conforming_run_succeeds:
  assumes "parse_args argv = Parsed a"
    and "load_data w (data_file a) (data_type a) = (ev1, Inr D)"
    and "load_data w (schema_file a) (schema_type a) = (ev2, Inr S)"
    and "jsonschema_validate w D S = None"
  shows "main w argv =
           (SetLevel (log_level a) # ev1 @ ev2 @
              [Logged INFO ''Data validation successful.'', Printed ''Validation successful!''],
            0)"
  using assms by (simp add: main_def run_def validate_data_def)

theorem conforming_run_succeeds_witness:
  "parse_args [''data.json'', ''schema.json'']
     = Parsed \<lparr>data_file = ''data.json'', schema_file = ''schema.json'', data_type = None,
               schema_type = None, log_level = ''INFO''\<rparr>
   \<and> load_data example_world ''data.json'' None
       = ([Opened ''data.json'', Closed ''data.json''], Inr data_doc)
   \<and> load_data example_world ''schema.json'' None
       = ([Opened ''schema.json'', Closed ''schema.json''], Inr schema_doc)
   \<and> jsonschema_validate example_world data_doc schema_doc = None
   \<and> main example_world [''data.json'', ''schema.json'']
       = ([SetLevel ''INFO'', Opened ''data.json'', Closed ''data.json'',
           Opened ''schema.json'', Closed ''schema.json'',
           Logged INFO ''Data validation successful.'', Printed ''Validation successful!''], 0)"
proof -
  let ?a = "\<lparr>data_file = ''data.json'', schema_file = ''schema.json'', data_type = None,
               schema_type = None, log_level = ''INFO''\<rparr>"
  have p: "parse_args [''data.json'', ''schema.json''] = Parsed ?a"
    by code_simp
  have d: "load_data example_world (data_file ?a) (data_type ?a)
             = ([Opened ''data.json'', Closed ''data.json''], Inr data_doc)"
    by (simp add: loader_defs example_defs)
  have s: "load_data example_world (schema_file ?a) (schema_type ?a)
             = ([Opened ''schema.json'', Closed ''schema.json''], Inr schema_doc)"
    by (simp add: loader_defs example_defs)
  have v: "jsonschema_validate example_world data_doc schema_doc = None"
    by (simp add: example_defs)
  show ?thesis
    using p d s v conforming_run_succeeds [OF p d s v] by simp
qed

section \<open>A document that violates the schema\<close>






section \<open>A path that does not exist\<close>

text \<open>
  C4. For a path that does not exist and any requested type (given or inferred),
  \<^verbatim>\<open>load_data\<close> raises \<^verbatim>\<open>FileNotFoundError\<close> with no event before it: \<^verbatim>\<open>open\<close> is never
  called. When the path is the data file, or the schema file after the data file has
  loaded, the process prints \<^verbatim>\<open>Error: File not found: <path>\<close> and ends with status 1.
\<close>

theorem missing_file_not_found:
  assumes "\<not> path_exists w p"
  shows "load_data w p t = ([], Inl (Exn FileNotFoundError (''File not found: '' @ p)))
         \<and> (parse_args argv = Parsed a \<and> data_file a = p \<longrightarrow>
              main w argv = ([SetLevel (log_level a), Printed (''Error: File not found: '' @ p)], 1))
         \<and> (parse_args argv = Parsed a \<and> schema_file a = p
              \<and> load_data w (data_file a) (data_type a) = (ev1, Inr D) \<longrightarrow>
              main w argv =
                (SetLevel (log_level a) # ev1 @ [Printed (''Error: File not found: '' @ p)], 1))"
  using assms
  by (auto simp: main_def run_def load_data_def report_def isinstance_def is_subclass_def)

theorem missing_file_not_found_witness:
  "\<not> path_exists example_world ''missing.json''
   \<and> load_data example_world ''missing.json'' (Some ''yaml'')
       = ([], Inl (Exn FileNotFoundError ''File not found: missing.json''))
   \<and> main example_world [''missing.json'', ''schema.json'']
       = ([SetLevel ''INFO'', Printed ''Error: File not found: missing.json''], 1)
   \<and> main example_world [''data.json'', ''missing.json'']
       = ([SetLevel ''INFO'', Opened ''data.json'', Closed ''data.json'',
           Printed ''Error: File not found: missing.json''], 1)"
proof -
  let ?a = "\<lparr>data_file = ''missing.json'', schema_file = ''schema.json'', data_type = None,
               schema_type = None, log_level = ''INFO''\<rparr>"
  let ?b = "\<lparr>data_file = ''data.json'', schema_file = ''missing.json'', data_type = None,
               schema_type = None, log_level = ''INFO''\<rparr>"
  have n: "\<not> path_exists example_world ''missing.json''"
    by (simp add: example_world_def example_files_def)
  have pa: "parse_args [''missing.json'', ''schema.json''] = Parsed ?a"
    by code_simp
  have pb: "parse_args [''data.json'', ''missing.json''] = Parsed ?b"
    by code_simp
  have d: "load_data example_world (data_file ?b) (data_type ?b)
             = ([Opened ''data.json'', Closed ''data.json''], Inr data_doc)"
    by (simp add: loader_defs example_defs)
  show ?thesis
    using n pa pb d
      missing_file_not_found [OF n, of "Some ''yaml''" "[''missing.json'', ''schema.json'']" ?a]
      missing_file_not_found [OF n, of None "[''data.json'', ''missing.json'']" ?b
        "[Opened ''data.json'', Closed ''data.json'']" data_doc]
    by simp
qed

section \<open>A schema that is no schema\<close>

text \<open>
  C6. When the engine rejects the schema itself with a \<^verbatim>\<open>SchemaError\<close> \<open>e\<close>, whatever the
  data document, the run logs \<^verbatim>\<open>Schema validation failed\<close> at error level, prints
  \<^verbatim>\<open>Schema Error: \<close> followed by the text of \<open>e\<close>, and ends with status 1. The outcome is
  not the one of a violating document: \<open>e\<close> is no \<^verbatim>\<open>ValidationError\<close>, and the printed
  line is not a \<^verbatim>\<open>Validation Error: \<close> line.
\<close>

theorem invalid_schema_reported:
  assumes "parse_args argv = Parsed a"
    and "load_data w (data_file a) (data_type a) = (ev1, Inr D)"
    and "load_data w (schema_file a) (schema_type a) = (ev2, Inr S)"
    and "jsonschema_validate w D S = Some e"
    and "isinstance e SchemaError"
  shows "main w argv =
           (SetLevel (log_level a) # ev1 @ ev2 @
              [Logged ERROR (''Schema validation failed: '' @ str_of e),
               Printed (''Schema Error: '' @ str_of e)],
            1)
         \<and> \<not> isinstance e ValidationError
         \<and> (\<forall>m. ''Schema Error: '' @ str_of e \<noteq> ''Validation Error: '' @ m)"
proof -
  from assms(5) have r: "report e = ''Schema Error: '' @ str_of e"
    and n: "\<not> isinstance e ValidationError"
    by (cases e; auto simp: report_def isinstance_def is_subclass_def)+
  from assms r n have "main w argv =
           (SetLevel (log_level a) # ev1 @ ev2 @
              [Logged ERROR (''Schema validation failed: '' @ str_of e),
               Printed (''Schema Error: '' @ str_of e)], 1)"
    by (simp add: main_def run_def validate_data_def)
  with n show ?thesis by simp
qed

theorem invalid_schema_reported_witness:
  "parse_args [''data.json'', ''bad_schema.json'']
     = Parsed \<lparr>data_file = ''data.json'', schema_file = ''bad_schema.json'', data_type = None,
               schema_type = None, log_level = ''INFO''\<rparr>
   \<and> load_data example_world ''data.json'' None
       = ([Opened ''data.json'', Closed ''data.json''], Inr data_doc)
   \<and> load_data example_world ''bad_schema.json'' None
       = ([Opened ''bad_schema.json'', Closed ''bad_schema.json''], Inr bad_schema_doc)
   \<and> jsonschema_validate example_world data_doc bad_schema_doc
       = Some (Exn SchemaError
                 (apostrophe @ ''not-a-type' is not valid under any of the given schemas''))
   \<and> isinstance (Exn SchemaError
                 (apostrophe @ ''not-a-type' is not valid under any of the given schemas''))
        SchemaError
   \<and> main example_world [''data.json'', ''bad_schema.json'']
       = ([SetLevel ''INFO'', Opened ''data.json'', Closed ''data.json'',
           Opened ''bad_schema.json'', Closed ''bad_schema.json'',
           Logged ERROR
             (''Schema validation failed: '' @ apostrophe
              @ ''not-a-type' is not valid under any of the given schemas''),
           Printed
             (''Schema Error: '' @ apostrophe
              @ ''not-a-type' is not valid under any of the given schemas'')], 1)"
proof -
  let ?a = "\<lparr>data_file = ''data.json'', schema_file = ''bad_schema.json'', data_type = None,
               schema_type = None, log_level = ''INFO''\<rparr>"
  let ?e = "Exn SchemaError
              (apostrophe @ ''not-a-type' is not valid under any of the given schemas'')"
  have p: "parse_args [''data.json'', ''bad_schema.json''] = Parsed ?a"
    by code_simp
  have d: "load_data example_world (data_file ?a) (data_type ?a)
             = ([Opened ''data.json'', Closed ''data.json''], Inr data_doc)"
    by (simp add: loader_defs example_defs)
  have s: "load_data example_world (schema_file ?a) (schema_type ?a)
             = ([Opened ''bad_schema.json'', Closed ''bad_schema.json''], Inr bad_schema_doc)"
    by (simp add: loader_defs example_defs)
  have v: "jsonschema_validate example_world data_doc bad_schema_doc = Some ?e"
    by (simp add: example_world_def example_validate_def)
  have i: "isinstance ?e SchemaError"
    by (simp add: isinstance_def is_subclass_def)
  show ?thesis
    using p d s v i invalid_schema_reported [OF p d s v i] by simp
qed

section \<open>Splitting a path at its dots\<close>

lemma py_split_no_sep: "c \<notin> set s \<Longrightarrow> py_split c s = [s]"
  by (induction s) auto

lemma length_py_split: "length (py_split c s) = Suc (length (filter (\<lambda>x. x = c) s))"
  by (induction s) (auto split: list.splits)

lemma py_split_not_Nil: "py_split c s \<noteq> []"
  using length_py_split [of c s] by auto

lemma last_py_split_Cons:
  "last (py_split c (x # s)) = (if c \<in> set s \<or> x = c then last (py_split c s) else x # s)"
proof (cases "c \<in> set s")
  case True
  then have "filter (\<lambda>x. x = c) s \<noteq> []"
    by (auto simp: filter_empty_conv)
  then have "2 \<le> length (py_split c s)"
    using length_py_split [of c s] by (cases "filter (\<lambda>x. x = c) s") auto
  then obtain h k t where "py_split c s = h # k # t"
    by (cases "py_split c s"; cases "tl (py_split c s)") auto
  with True show ?thesis by auto
next
  case False
  then show ?thesis by (auto simp: py_split_no_sep py_split_not_Nil)
qed

lemma last_py_split_append: "last (py_split c (pre @ c # s)) = last (py_split c s)"
proof (induction pre)
  case Nil
  show ?case by (simp add: py_split_not_Nil)
next
  case (Cons x pre)
  have "last (py_split c (x # (pre @ c # s))) = last (py_split c (pre @ c # s))"
    by (subst last_py_split_Cons) simp
  with Cons show ?case by simp
qed

lemma last_py_split_ext:
  "c \<notin> set ext \<Longrightarrow> last (py_split c (stem @ c # ext)) = ext"
  by (simp add: last_py_split_append py_split_no_sep)

lemma last_py_split_suffix:
  "\<exists>pre. s = pre @ last (py_split c s) \<and> c \<notin> set (last (py_split c s))
         \<and> (pre = [] \<or> last pre = c)"
proof (cases "c \<in> set s")
  case True
  then obtain ys zs where s: "s = ys @ c # zs" and z: "c \<notin> set zs"
    by (auto dest: split_list_last)
  then have "last (py_split c s) = zs"
    by (simp add: last_py_split_ext)
  with s z have "s = (ys @ [c]) @ last (py_split c s) \<and> c \<notin> set (last (py_split c s))
      \<and> last (ys @ [c]) = c"
    by simp
  then show ?thesis by blast
next
  case False
  then show ?thesis by (simp add: py_split_no_sep)
qed

lemma type_segment_ends_with_basename:
  assumes "CHR ''.'' \<notin> set (basename p)"
  shows "\<exists>pre. last (py_split (CHR ''.'') p) = pre @ basename p
            \<and> (pre = [] \<or> last pre = CHR ''/'')"
proof -
  let ?seg = "last (py_split (CHR ''.'') p)"
  obtain p1 where p1: "p = p1 @ ?seg" "p1 = [] \<or> last p1 = CHR ''.''"
    using last_py_split_suffix [of p "CHR ''.''"] by blast
  obtain p2 where p2: "p = p2 @ basename p" "p2 = [] \<or> last p2 = CHR ''/''"
    using last_py_split_suffix [of p "CHR ''/''"] unfolding basename_def by blast
  from p1(1) p2(1) have "p1 @ ?seg = p2 @ basename p" by simp
  then obtain us where
    "(p1 = p2 @ us \<and> us @ ?seg = basename p) \<or> (p1 @ us = p2 \<and> ?seg = us @ basename p)"
    by (auto simp: append_eq_append_conv2)
  then show ?thesis
  proof
    assume a: "p1 = p2 @ us \<and> us @ ?seg = basename p"
    show ?thesis
    proof (cases "us = []")
      case True
      with a show ?thesis by simp
    next
      case False
      with a p1(2) have "last us = CHR ''.''" by auto
      with False have "CHR ''.'' \<in> set us" by (metis last_in_set)
      with a have "CHR ''.'' \<in> set (basename p)" by (metis Un_iff set_append)
      with assms show ?thesis by simp
    qed
  next
    assume a: "p1 @ us = p2 \<and> ?seg = us @ basename p"
    show ?thesis
    proof (cases "us = []")
      case True
      with a show ?thesis by simp
    next
      case False
      with a p2(2) have "last us = CHR ''/''" by auto
      with a show ?thesis by blast
    qed
  qed
qed


section \<open>Resolving the type of a file\<close>



section \<open>A path without extension\<close>

text \<open>
  C10, as stated, fails twice. A file named \<^verbatim>\<open>JSON\<close> has no dot in its name and its name
  is not literally \<^verbatim>\<open>json\<close>, yet it loads as JSON, since the name is lowercased; and for
  \<^verbatim>\<open>docs/README\<close> the resolved type is \<^verbatim>\<open>docs/readme\<close>, not the file name.
\<close>

theorem extensionless_type_counterexample:
  "path_exists example_world ''JSON'' \<and> basename ''JSON'' = ''JSON''
   \<and> CHR ''.'' \<notin> set (basename ''JSON'')
   \<and> ''JSON'' \<noteq> ''json'' \<and> ''JSON'' \<noteq> ''yaml'' \<and> ''JSON'' \<noteq> ''yml''
   \<and> load_data example_world ''JSON'' None = ([Opened ''JSON'', Closed ''JSON''], Inr (JObj []))
   \<and> path_exists example_world ''docs/README'' \<and> basename ''docs/README'' = ''README''
   \<and> CHR ''.'' \<notin> set (basename ''docs/README'')
   \<and> resolve_type ''docs/README'' None = ''docs/readme''
   \<and> resolve_type ''docs/README'' None \<noteq> ''README''"
  by code_simp

text \<open>
  C10, amended. With no explicit type the resolved type is the piece of the whole path
  after its last dot, lowercased; the whole path, lowercased, when the path has no dot.
  When the file name (what follows the last slash) has no dot, the resolved type ends with
  the lowercased file name, and what stands before it is empty or ends with a slash. The
  type is unsupported exactly when it is none of \<^verbatim>\<open>json\<close>, \<^verbatim>\<open>yaml\<close>, \<^verbatim>\<open>yml\<close>; then, for
  an existing path that opens, the load fails with the unsupported-type \<^verbatim>\<open>ValueError\<close>
  after the file was opened and closed, and logs it. When the open fails, the load fails
  with the exception of the open instead.
\<close>

theorem extensionless_type:
  "resolve_type p None = py_lower (last (py_split (CHR ''.'') p))
   \<and> (CHR ''.'' \<notin> set p \<longrightarrow> resolve_type p None = py_lower p)
   \<and> (CHR ''.'' \<notin> set (basename p) \<longrightarrow>
        (\<exists>pre. resolve_type p None = py_lower (pre @ basename p)
               \<and> (pre = [] \<or> last pre = CHR ''/'')))
   \<and> (format_of t = Unsupported) = (t \<noteq> ''json'' \<and> t \<noteq> ''yaml'' \<and> t \<noteq> ''yml'')
   \<and> (path_exists w p \<and> open_r w p = Inr c \<and> format_of (resolve_type p None) = Unsupported \<longrightarrow>
        load_data w p None =
          ([Opened p, Closed p,
            Logged ERROR (''Error loading data from '' @ p @ '': Unsupported file type: ''
                          @ resolve_type p None @ ''.  Must be json or yaml/yml.'')],
           Inl (Exn ValueError (''Unsupported file type: '' @ resolve_type p None
                                @ ''.  Must be json or yaml/yml.''))))
   \<and> (path_exists w p \<and> open_r w p = Inl e \<longrightarrow>
        fst (load_data w p None) = [OpenFailed p, load_handler p e]
        \<and> snd (load_data w p None) = Inl e)"
proof -
  have a: "resolve_type p None = py_lower (last (py_split (CHR ''.'') p))"
    by (simp add: resolve_type_def)
  have b: "CHR ''.'' \<notin> set p \<longrightarrow> resolve_type p None = py_lower p"
    by (simp add: resolve_type_def py_split_no_sep)
  have c: "CHR ''.'' \<notin> set (basename p) \<longrightarrow>
        (\<exists>pre. resolve_type p None = py_lower (pre @ basename p)
               \<and> (pre = [] \<or> last pre = CHR ''/''))"
  proof
    assume "CHR ''.'' \<notin> set (basename p)"
    then obtain pre where "last (py_split (CHR ''.'') p) = pre @ basename p"
      "pre = [] \<or> last pre = CHR ''/''"
      using type_segment_ends_with_basename by blast
    with a show "\<exists>pre. resolve_type p None = py_lower (pre @ basename p)
               \<and> (pre = [] \<or> last pre = CHR ''/'')"
      by auto
  qed
  have d: "(format_of t = Unsupported) = (t \<noteq> ''json'' \<and> t \<noteq> ''yaml'' \<and> t \<noteq> ''yml'')"
    by (simp add: format_of_def)
  have e: "path_exists w p \<and> open_r w p = Inr c \<and> format_of (resolve_type p None) = Unsupported \<longrightarrow>
        load_data w p None =
          ([Opened p, Closed p,
            Logged ERROR (''Error loading data from '' @ p @ '': Unsupported file type: ''
                          @ resolve_type p None @ ''.  Must be json or yaml/yml.'')],
           Inl (Exn ValueError (''Unsupported file type: '' @ resolve_type p None
                                @ ''.  Must be json or yaml/yml.'')))"
    by (simp add: load_data_def try_load_def parse_as_def load_handler_def isinstance_def
        is_subclass_def)
  have f: "path_exists w p \<and> open_r w p = Inl e \<longrightarrow>
        fst (load_data w p None) = [OpenFailed p, load_handler p e]
        \<and> snd (load_data w p None) = Inl e"
    by (simp add: load_data_def try_load_def)
  from a b c d e f show ?thesis by blast
qed

theorem extensionless_type_witness:
  "CHR ''.'' \<notin> set ''docs/README'' \<and> resolve_type ''docs/README'' None = ''docs/readme''
   \<and> CHR ''.'' \<notin> set (basename ''docs/README'')
   \<and> (\<exists>pre. resolve_type ''docs/README'' None = py_lower (pre @ basename ''docs/README'')
             \<and> (pre = [] \<or> last pre = CHR ''/''))
   \<and> path_exists example_world ''docs/README''
   \<and> open_r example_world ''docs/README'' = Inr ''hello''
   \<and> format_of (resolve_type ''docs/README'' None) = Unsupported
   \<and> load_data example_world ''docs/README'' None =
       ([Opened ''docs/README'', Closed ''docs/README'',
         Logged ERROR ''Error loading data from docs/README: Unsupported file type: docs/readme.  Must be json or yaml/yml.''],
        Inl (Exn ValueError ''Unsupported file type: docs/readme.  Must be json or yaml/yml.''))
   \<and> path_exists example_world ''locked.json''
   \<and> snd (load_data example_world ''locked.json'' None)
       = Inl (Exn PermissionError (''[Errno 13] Permission denied: 'locked.json'' @ apostrophe))"
proof -
  have n: "CHR ''.'' \<notin> set ''docs/README''" by simp
  have b: "CHR ''.'' \<notin> set (basename ''docs/README'')" by (simp add: basename_def)
  have r: "resolve_type ''docs/README'' None = ''docs/readme''"
    by code_simp
  have x: "path_exists example_world ''docs/README''"
    by (simp add: example_world_def example_files_def)
  have o: "open_r example_world ''docs/README'' = Inr ''hello''"
    by (simp add: example_world_def example_files_def)
  have u: "format_of (resolve_type ''docs/README'' None) = Unsupported"
    by (simp add: r format_of_def)
  have xl: "path_exists example_world ''locked.json''"
    by (simp add: example_world_def example_files_def)
  have ol: "open_r example_world ''locked.json''
      = Inl (Exn PermissionError (''[Errno 13] Permission denied: 'locked.json'' @ apostrophe))"
    by (simp add: example_world_def example_files_def)
  note t1 = extensionless_type [of "''docs/README''" "''docs/readme''" example_world "''hello''"]
  note t2 = extensionless_type [of "''locked.json''" "''json''" example_world "[]"
        "Exn PermissionError (''[Errno 13] Permission denied: 'locked.json'' @ apostrophe)"]
  from t1 [THEN conjunct2, THEN conjunct2, THEN conjunct1] b have w2: "\<exists>pre. resolve_type ''docs/README'' None = py_lower (pre @ basename ''docs/README'')
             \<and> (pre = [] \<or> last pre = CHR ''/'')"
    by (rule mp)
  from t1 [THEN conjunct2, THEN conjunct2, THEN conjunct2, THEN conjunct2, THEN conjunct1]
    conjI [OF x conjI [OF o u]]
  have "load_data example_world ''docs/README'' None =
          ([Opened ''docs/README'', Closed ''docs/README'',
            Logged ERROR (''Error loading data from '' @ ''docs/README'' @ '': Unsupported file type: ''
                          @ resolve_type ''docs/README'' None @ ''.  Must be json or yaml/yml.'')],
           Inl (Exn ValueError (''Unsupported file type: '' @ resolve_type ''docs/README'' None
                                @ ''.  Must be json or yaml/yml.'')))"
    by (rule mp)
  then have w3: "load_data example_world ''docs/README'' None =
       ([Opened ''docs/README'', Closed ''docs/README'',
         Logged ERROR ''Error loading data from docs/README: Unsupported file type: docs/readme.  Must be json or yaml/yml.''],
        Inl (Exn ValueError ''Unsupported file type: docs/readme.  Must be json or yaml/yml.''))"
    by (simp add: r)
  from t2 [THEN conjunct2, THEN conjunct2, THEN conjunct2, THEN conjunct2, THEN conjunct2]
    conjI [OF xl ol]
  have "fst (load_data example_world ''locked.json'' None)
          = [OpenFailed ''locked.json'', load_handler ''locked.json''
               (Exn PermissionError (''[Errno 13] Permission denied: 'locked.json'' @ apostrophe))]
        \<and> snd (load_data example_world ''locked.json'' None)
          = Inl (Exn PermissionError (''[Errno 13] Permission denied: 'locked.json'' @ apostrophe))"
    by (rule mp)
  then have w4: "snd (load_data example_world ''locked.json'' None)
       = Inl (Exn PermissionError (''[Errno 13] Permission denied: 'locked.json'' @ apostrophe))"
    by (rule conjunct2)
  from n b r w2 x o u w3 xl w4 show ?thesis
    by (intro conjI)
qed

section \<open>Files that do not parse\<close>

lemma run_data_load_fails:
  "load_data w (data_file a) (data_type a) = (evs, Inl e) \<Longrightarrow>
   run w a = (SetLevel (log_level a) # evs @ [Printed (report e)], 1)"
  by (simp add: run_def)

text \<open>
  C5, as stated, fails for YAML: the run on \<^verbatim>\<open>broken.yaml\<close> ends in the last handler of
  \<^verbatim>\<open>main\<close> and prints \<^verbatim>\<open>An unexpected error occurred\<close>. \<^verbatim>\<open>main\<close> has no handler for
  parse errors; a JSON error is caught by the \<^verbatim>\<open>ValueError\<close> handler only because
  \<^verbatim>\<open>json.JSONDecodeError\<close> derives from \<^verbatim>\<open>ValueError\<close>, and \<^verbatim>\<open>yaml.YAMLError\<close> does not.
\<close>

theorem parse_error_reporting_counterexample:
  "main example_world [''broken.yaml'', ''schema.json'']
     = ([SetLevel ''INFO'', Opened ''broken.yaml'', Closed ''broken.yaml'',
         Logged ERROR ''Error decoding YAML in broken.yaml: while parsing a flow sequence'',
         Printed ''An unexpected error occurred: while parsing a flow sequence''], 1)"
  by code_simp

text \<open>
  C5, amended. For an existing file that opens and whose text its parser rejects,
  \<^verbatim>\<open>load_data\<close> logs at error level the format and the parser's message and re-raises
  the parser's exception unchanged. For JSON the handlers of \<^verbatim>\<open>main\<close> give the line
  \<^verbatim>\<open>Error: \<close> and the parser's message, and the last handler is never reached; for YAML
  they give \<^verbatim>\<open>An unexpected error occurred: \<close> and the parser's message. For the data
  file, that line is printed and the process ends with status 1.
\<close>

theorem parse_error_reporting:
  assumes "path_exists w p"
    and "open_r w p = Inr c"
  shows "(format_of (resolve_type p t) = JSON
          \<and> json_load w c = Inl e \<and> isinstance e JSONDecodeError \<longrightarrow>
            load_data w p t
              = ([Opened p, Closed p,
                  Logged ERROR (''Error decoding JSON in '' @ p @ '': '' @ str_of e)],
                 Inl e)
            \<and> report e = ''Error: '' @ str_of e
            \<and> (parse_args argv = Parsed a \<and> data_file a = p \<and> data_type a = t \<longrightarrow>
                 main w argv
                   = ([SetLevel (log_level a), Opened p, Closed p,
                       Logged ERROR (''Error decoding JSON in '' @ p @ '': '' @ str_of e),
                       Printed (''Error: '' @ str_of e)], 1)))
       \<and> (format_of (resolve_type p t) = YAML
          \<and> yaml_safe_load w c = Inl e \<and> isinstance e YAMLError \<longrightarrow>
            load_data w p t
              = ([Opened p, Closed p,
                  Logged ERROR (''Error decoding YAML in '' @ p @ '': '' @ str_of e)],
                 Inl e)
            \<and> report e = ''An unexpected error occurred: '' @ str_of e
            \<and> (parse_args argv = Parsed a \<and> data_file a = p \<and> data_type a = t \<longrightarrow>
                 main w argv
                   = ([SetLevel (log_level a), Opened p, Closed p,
                       Logged ERROR (''Error decoding YAML in '' @ p @ '': '' @ str_of e),
                       Printed (''An unexpected error occurred: '' @ str_of e)], 1)))"
proof (intro conjI impI)
  assume h: "format_of (resolve_type p t) = JSON
          \<and> json_load w c = Inl e \<and> isinstance e JSONDecodeError"
  then have cl: "class_of e = JSONDecodeError"
    by (cases e) (auto simp: isinstance_def is_subclass_def)
  from h cl assms show l: "load_data w p t
              = ([Opened p, Closed p,
                  Logged ERROR (''Error decoding JSON in '' @ p @ '': '' @ str_of e)],
                 Inl e)"
    by (simp add: load_data_def try_load_def parse_as_def load_handler_def isinstance_def
        is_subclass_def)
  from cl show r: "report e = ''Error: '' @ str_of e"
    by (simp add: report_def isinstance_def is_subclass_def)
  assume "parse_args argv = Parsed a \<and> data_file a = p \<and> data_type a = t"
  with l r show "main w argv
                   = ([SetLevel (log_level a), Opened p, Closed p,
                       Logged ERROR (''Error decoding JSON in '' @ p @ '': '' @ str_of e),
                       Printed (''Error: '' @ str_of e)], 1)"
    by (auto simp: main_def run_data_load_fails)
next
  assume h: "format_of (resolve_type p t) = YAML
          \<and> yaml_safe_load w c = Inl e \<and> isinstance e YAMLError"
  then have cl: "class_of e = YAMLError"
    by (cases e) (auto simp: isinstance_def is_subclass_def)
  from h cl assms show l: "load_data w p t
              = ([Opened p, Closed p,
                  Logged ERROR (''Error decoding YAML in '' @ p @ '': '' @ str_of e)],
                 Inl e)"
    by (simp add: load_data_def try_load_def parse_as_def load_handler_def isinstance_def
        is_subclass_def)
  from cl show r: "report e = ''An unexpected error occurred: '' @ str_of e"
    by (simp add: report_def isinstance_def is_subclass_def)
  assume "parse_args argv = Parsed a \<and> data_file a = p \<and> data_type a = t"
  with l r show "main w argv
                   = ([SetLevel (log_level a), Opened p, Closed p,
                       Logged ERROR (''Error decoding YAML in '' @ p @ '': '' @ str_of e),
                       Printed (''An unexpected error occurred: '' @ str_of e)], 1)"
    by (auto simp: main_def run_data_load_fails)
qed

theorem parse_error_reporting_witness:
  "path_exists example_world ''broken.json''
   \<and> open_r example_world ''broken.json'' = Inr broken_json_text
   \<and> format_of (resolve_type ''broken.json'' None) = JSON
   \<and> json_load example_world broken_json_text
       = Inl (Exn JSONDecodeError ''Expecting value: line 1 column 10 (char 9)'')
   \<and> isinstance (Exn JSONDecodeError ''Expecting value: line 1 column 10 (char 9)'')
        JSONDecodeError
   \<and> parse_args [''broken.json'', ''schema.json'']
     = Parsed \<lparr>data_file = ''broken.json'', schema_file = ''schema.json'', data_type = None,
               schema_type = None, log_level = ''INFO''\<rparr>
   \<and> main example_world [''broken.json'', ''schema.json'']
       = ([SetLevel ''INFO'', Opened ''broken.json'', Closed ''broken.json'',
           Logged ERROR ''Error decoding JSON in broken.json: Expecting value: line 1 column 10 (char 9)'',
           Printed ''Error: Expecting value: line 1 column 10 (char 9)''], 1)
   \<and> path_exists example_world ''broken.yaml''
   \<and> open_r example_world ''broken.yaml'' = Inr broken_yaml_text
   \<and> format_of (resolve_type ''broken.yaml'' None) = YAML
   \<and> yaml_safe_load example_world broken_yaml_text
       = Inl (Exn YAMLError ''while parsing a flow sequence'')
   \<and> isinstance (Exn YAMLError ''while parsing a flow sequence'') YAMLError
   \<and> load_data example_world ''broken.yaml'' None
       = ([Opened ''broken.yaml'', Closed ''broken.yaml'',
           Logged ERROR ''Error decoding YAML in broken.yaml: while parsing a flow sequence''],
          Inl (Exn YAMLError ''while parsing a flow sequence''))
   \<and> report (Exn YAMLError ''while parsing a flow sequence'')
       = ''An unexpected error occurred: while parsing a flow sequence''
   \<and> parse_args [''broken.yaml'', ''schema.json'']
     = Parsed \<lparr>data_file = ''broken.yaml'', schema_file = ''schema.json'', data_type = None,
               schema_type = None, log_level = ''INFO''\<rparr>
   \<and> snd (main example_world [''broken.yaml'', ''schema.json'']) = 1"
proof -
  let ?b = "\<lparr>data_file = ''broken.yaml'', schema_file = ''schema.json'', data_type = None,
               schema_type = None, log_level = ''INFO''\<rparr>"
  have pb: "parse_args [''broken.yaml'', ''schema.json''] = Parsed ?b"
    by code_simp
  have ib: "parse_args [''broken.yaml'', ''schema.json''] = Parsed ?b
      \<and> data_file ?b = ''broken.yaml'' \<and> data_type ?b = None"
    using pb by simp
  let ?a = "\<lparr>data_file = ''broken.json'', schema_file = ''schema.json'', data_type = None,
               schema_type = None, log_level = ''INFO''\<rparr>"
  let ?e = "Exn JSONDecodeError ''Expecting value: line 1 column 10 (char 9)''"
  let ?f = "Exn YAMLError ''while parsing a flow sequence''"
  have pa: "parse_args [''broken.json'', ''schema.json''] = Parsed ?a"
    by code_simp
  have xa: "path_exists example_world ''broken.json''"
    by (simp add: example_world_def example_files_def)
  have xb: "path_exists example_world ''broken.yaml''"
    by (simp add: example_world_def example_files_def)
  have oa: "open_r example_world ''broken.json'' = Inr broken_json_text"
    by (simp add: example_world_def example_files_def)
  have ob: "open_r example_world ''broken.yaml'' = Inr broken_yaml_text"
    by (simp add: example_world_def example_files_def)
  have ha: "format_of (resolve_type ''broken.json'' None) = JSON
      \<and> json_load example_world broken_json_text = Inl ?e \<and> isinstance ?e JSONDecodeError"
    by (simp add: loader_defs example_defs)
  have hb: "format_of (resolve_type ''broken.yaml'' None) = YAML
      \<and> yaml_safe_load example_world broken_yaml_text = Inl ?f \<and> isinstance ?f YAMLError"
    by (simp add: loader_defs example_defs)
  have ia: "parse_args [''broken.json'', ''schema.json''] = Parsed ?a
      \<and> data_file ?a = ''broken.json'' \<and> data_type ?a = None"
    using pa by simp
  from parse_error_reporting [OF xa oa, of None ?e "[''broken.json'', ''schema.json'']" ?a,
      THEN conjunct1] ha
  have ja: "load_data example_world ''broken.json'' None
              = ([Opened ''broken.json'', Closed ''broken.json'',
                  Logged ERROR (''Error decoding JSON in '' @ ''broken.json'' @ '': '' @ str_of ?e)],
                 Inl ?e)
            \<and> report ?e = ''Error: '' @ str_of ?e
            \<and> (parse_args [''broken.json'', ''schema.json''] = Parsed ?a
                 \<and> data_file ?a = ''broken.json'' \<and> data_type ?a = None \<longrightarrow>
                 main example_world [''broken.json'', ''schema.json'']
                   = ([SetLevel (log_level ?a), Opened ''broken.json'', Closed ''broken.json'',
                       Logged ERROR (''Error decoding JSON in '' @ ''broken.json'' @ '': '' @ str_of ?e),
                       Printed (''Error: '' @ str_of ?e)], 1))"
    by (rule mp)
  from ja [THEN conjunct2, THEN conjunct2] ia
  have "main example_world [''broken.json'', ''schema.json'']
                   = ([SetLevel (log_level ?a), Opened ''broken.json'', Closed ''broken.json'',
                       Logged ERROR (''Error decoding JSON in '' @ ''broken.json'' @ '': '' @ str_of ?e),
                       Printed (''Error: '' @ str_of ?e)], 1)"
    by (rule mp)
  then have ma: "main example_world [''broken.json'', ''schema.json'']
       = ([SetLevel ''INFO'', Opened ''broken.json'', Closed ''broken.json'',
           Logged ERROR ''Error decoding JSON in broken.json: Expecting value: line 1 column 10 (char 9)'',
           Printed ''Error: Expecting value: line 1 column 10 (char 9)''], 1)"
    by simp
  from parse_error_reporting [OF xb ob, of None ?f "[''broken.yaml'', ''schema.json'']" ?b,
      THEN conjunct2] hb
  have jb: "load_data example_world ''broken.yaml'' None
              = ([Opened ''broken.yaml'', Closed ''broken.yaml'',
                  Logged ERROR (''Error decoding YAML in '' @ ''broken.yaml'' @ '': '' @ str_of ?f)],
                 Inl ?f)
            \<and> report ?f = ''An unexpected error occurred: '' @ str_of ?f
            \<and> (parse_args [''broken.yaml'', ''schema.json''] = Parsed ?b
                 \<and> data_file ?b = ''broken.yaml'' \<and> data_type ?b = None \<longrightarrow>
                 main example_world [''broken.yaml'', ''schema.json'']
                   = ([SetLevel (log_level ?b), Opened ''broken.yaml'', Closed ''broken.yaml'',
                       Logged ERROR (''Error decoding YAML in '' @ ''broken.yaml'' @ '': '' @ str_of ?f),
                       Printed (''An unexpected error occurred: '' @ str_of ?f)], 1))"
    by (rule mp)
  from jb have lb: "load_data example_world ''broken.yaml'' None
       = ([Opened ''broken.yaml'', Closed ''broken.yaml'',
           Logged ERROR ''Error decoding YAML in broken.yaml: while parsing a flow sequence''],
          Inl ?f)"
    by simp
  from jb have rb: "report ?f = ''An unexpected error occurred: while parsing a flow sequence''"
    by simp
  from jb [THEN conjunct2, THEN conjunct2] ib
  have "main example_world [''broken.yaml'', ''schema.json'']
                   = ([SetLevel (log_level ?b), Opened ''broken.yaml'', Closed ''broken.yaml'',
                       Logged ERROR (''Error decoding YAML in '' @ ''broken.yaml'' @ '': '' @ str_of ?f),
                       Printed (''An unexpected error occurred: '' @ str_of ?f)], 1)"
    by (rule mp)
  then have mb: "snd (main example_world [''broken.yaml'', ''schema.json'']) = 1"
    by simp
  from xa oa ha pa ma xb ob hb lb rb pb mb show ?thesis
    by simp
qed

section \<open>Files that cannot be read\<close>

text \<open>
  C9, as stated, fails: for a file that exists and whose open is refused, the run logs
  through the last handler of \<^verbatim>\<open>load_data\<close> and prints through the last handler of
  \<^verbatim>\<open>main\<close>, the one for unexpected errors.
\<close>

theorem io_failure_reporting_counterexample:
  "main example_world [''locked.json'', ''schema.json'']
     = ([SetLevel ''INFO'', OpenFailed ''locked.json'',
         Logged ERROR (''Error loading data from locked.json: [Errno 13] Permission denied: 'locked.json''
                       @ apostrophe),
         Printed (''An unexpected error occurred: [Errno 13] Permission denied: 'locked.json''
                  @ apostrophe)], 1)"
  by code_simp

text \<open>
  C9, amended. When the \<^verbatim>\<open>try\<close> block of \<^verbatim>\<open>load_data\<close> on an existing file raises an
  I/O error other than non-existence (\<^verbatim>\<open>PermissionError\<close>, or another \<^verbatim>\<open>OSError\<close>), the
  load logs \<^verbatim>\<open>Error loading data from <path>: <cause>\<close> at error level and re-raises the
  same exception, not wrapped; the handlers of \<^verbatim>\<open>main\<close> report it as an unexpected error,
  \<^verbatim>\<open>An unexpected error occurred: <cause>\<close>. For the data file, that line is printed and
  the process ends with status 1.
\<close>

theorem io_failure_reporting:
  assumes "path_exists w p"
    and "try_load w p (resolve_type p t) = (evs, Inl e)"
    and "class_of e = PermissionError \<or> class_of e = OSError"
  shows "load_data w p t
           = (evs @ [Logged ERROR (''Error loading data from '' @ p @ '': '' @ str_of e)], Inl e)
         \<and> report e = ''An unexpected error occurred: '' @ str_of e
         \<and> (parse_args argv = Parsed a \<and> data_file a = p \<and> data_type a = t \<longrightarrow>
              main w argv
                = (SetLevel (log_level a) # evs
                     @ [Logged ERROR (''Error loading data from '' @ p @ '': '' @ str_of e),
                        Printed (''An unexpected error occurred: '' @ str_of e)], 1))"
proof -
  from assms(3) have h: "load_handler p e
      = Logged ERROR (''Error loading data from '' @ p @ '': '' @ str_of e)"
    and r: "report e = ''An unexpected error occurred: '' @ str_of e"
    by (auto simp: load_handler_def report_def isinstance_def is_subclass_def)
  from assms(1,2) h have l: "load_data w p t
           = (evs @ [Logged ERROR (''Error loading data from '' @ p @ '': '' @ str_of e)], Inl e)"
    by (simp add: load_data_def)
  with r show ?thesis
    by (auto simp: main_def run_data_load_fails)
qed

theorem io_failure_reporting_witness:
  "path_exists example_world ''locked.json''
   \<and> try_load example_world ''locked.json'' (resolve_type ''locked.json'' None)
       = ([OpenFailed ''locked.json''],
          Inl (Exn PermissionError (''[Errno 13] Permission denied: 'locked.json'' @ apostrophe)))
   \<and> parse_args [''locked.json'', ''schema.json'']
     = Parsed \<lparr>data_file = ''locked.json'', schema_file = ''schema.json'', data_type = None,
               schema_type = None, log_level = ''INFO''\<rparr>
   \<and> load_data example_world ''locked.json'' None
       = ([OpenFailed ''locked.json'',
           Logged ERROR (''Error loading data from locked.json: ''
                         @ ''[Errno 13] Permission denied: 'locked.json'' @ apostrophe)],
          Inl (Exn PermissionError (''[Errno 13] Permission denied: 'locked.json'' @ apostrophe)))
   \<and> snd (main example_world [''locked.json'', ''schema.json'']) = 1"
proof -
  let ?a = "\<lparr>data_file = ''locked.json'', schema_file = ''schema.json'', data_type = None,
               schema_type = None, log_level = ''INFO''\<rparr>"
  let ?e = "Exn PermissionError (''[Errno 13] Permission denied: 'locked.json'' @ apostrophe)"
  have p: "parse_args [''locked.json'', ''schema.json''] = Parsed ?a"
    by code_simp
  have x: "path_exists example_world ''locked.json''"
    by (simp add: example_world_def example_files_def)
  have t: "try_load example_world ''locked.json'' (resolve_type ''locked.json'' None)
      = ([OpenFailed ''locked.json''], Inl ?e)"
    by (simp add: try_load_def example_world_def)
  have c: "class_of ?e = PermissionError \<or> class_of ?e = OSError"
    by simp
  from io_failure_reporting [OF x t c, of "[''locked.json'', ''schema.json'']" ?a] p x t
  show ?thesis
    by simp
qed

section \<open>Logging on the failure paths of the loader\<close>

text \<open>
  Every failure of \<^verbatim>\<open>load_data\<close> on a path that exists ends with an error-level call of
  the logger, and the exception is returned all the same.
\<close>

lemma load_failure_logged_when_exists:
  assumes "path_exists w p" and "load_data w p t = (evs, Inl e)"
  shows "\<exists>m. evs \<noteq> [] \<and> last evs = Logged ERROR m"
  using assms
  by (auto simp: load_data_def load_handler_def split: prod.splits sum.splits if_splits)

text \<open>
  C7 does not hold for the first failure path: the \<^verbatim>\<open>raise\<close> of line 41 stands before the
  \<^verbatim>\<open>try\<close> block, so the handler of lines 54-56, which logs \<^verbatim>\<open>File not found\<close> for this
  very class, never sees it. On a path that does not exist the load fails with no logging
  call at all, and the whole run logs nothing.
\<close>

theorem missing_file_not_logged:
  "load_data example_world ''missing.json'' None
     = ([], Inl (Exn FileNotFoundError ''File not found: missing.json''))
   \<and> main example_world [''missing.json'', ''schema.json'']
     = ([SetLevel ''INFO'', Printed ''Error: File not found: missing.json''], 1)
   \<and> load_handler ''missing.json'' (Exn FileNotFoundError ''File not found: missing.json'')
     = Logged ERROR ''File not found: missing.json''"
  by code_simp

section \<open>Exit status\<close>


























end
